theory Spec2Isabelle
  imports Complex_Main
begin

section \<open>Text\<close>

text \<open>
  A Python \<open>str\<close> is a sequence of Unicode code points. A code point is a natural number,
  a text is a list of them. \<open>lit\<close> turns an ASCII literal into a text, so that the
  literals of \<open>main.py\<close> can be written as they are; a letter beyond ASCII is written by
  its code point (\<open>0xEE\<close> is U+00EE, the i with circumflex of the source's second
  region test).
\<close>

type_synonym codepoint = nat
type_synonym utext = "codepoint list"

definition lit :: "string \<Rightarrow> utext" where
  "lit s = map of_char s"

text \<open>Python's \<open>kw in combined\<close> on two strings: \<open>kw\<close> occurs as a contiguous run.\<close>

fun startswith :: "'a list \<Rightarrow> 'a list \<Rightarrow> bool" where
  "startswith [] s = True"
| "startswith (k # ks) [] = False"
| "startswith (k # ks) (c # cs) = (k = c \<and> startswith ks cs)"

fun str_in :: "'a list \<Rightarrow> 'a list \<Rightarrow> bool" where
  "str_in kw [] = (kw = [])"
| "str_in kw (c # cs) = (startswith kw (c # cs) \<or> str_in kw cs)"

section \<open>JSON objects and Python values\<close>

text \<open>
  The program reads JSON objects with \<open>dict.get\<close>. A member of an object is missing, or
  it is the JSON \<open>null\<close>, or it has a value of the type the data model gives it. The
  value that Python holds after a read is an \<open>option\<close>, where \<open>None\<close> is Python's
  \<open>None\<close>: \<open>d.get(key, default)\<close> gives the default for a missing member only, and
  \<open>None\<close> for a \<open>null\<close>; \<open>d.get(key)\<close> gives \<open>None\<close> for both. A further
  \<open>.get\<close> on \<open>None\<close> raises \<open>AttributeError\<close>. The elements of a JSON array are
  taken to be objects.
\<close>

datatype 'a member = Missing | Null | Val 'a

definition get_or :: "'a member \<Rightarrow> 'a \<Rightarrow> 'a option" where
  "get_or m dflt = (case m of Missing \<Rightarrow> Some dflt | Null \<Rightarrow> None | Val v \<Rightarrow> Some v)"

definition get_member :: "'a member \<Rightarrow> 'a option" where
  "get_member m = (case m of Missing \<Rightarrow> None | Null \<Rightarrow> None | Val v \<Rightarrow> Some v)"

text \<open>\<open>a or b\<close> on two values that are a list, a string or \<open>None\<close>: \<open>a\<close> when it is
  not \<open>None\<close> and not empty, else \<open>b\<close>.\<close>

definition or_else :: "'a list option \<Rightarrow> 'a list option \<Rightarrow> 'a list option" where
  "or_else a b = (case a of None \<Rightarrow> b | Some x \<Rightarrow> if x \<noteq> [] then Some x else b)"

text \<open>\<open>slug = s.get("slug") or s.get("id")\<close>, the key of a detail request: the slug when it
  is a non-empty string, else the id, else \<open>None\<close>.\<close>

datatype site_key = Slug utext | Ident int | NoKey

text \<open>
  What the program raises. The two \<open>RuntimeError\<close>s carry the fields that their
  messages are formatted from: page, status and body for the list request, key and status
  for the detail request. \<open>RequestException\<close> is what the transport raises,
  \<open>JSONDecodeError\<close> what \<open>resp.json()\<close> raises.
\<close>

datatype error =
    ListRequestFailed nat int utext
  | DetailRequestFailed site_key int
  | RequestException
  | JSONDecodeError
  | AttributeError
  | ValueError

section \<open>The library functions the program calls\<close>

text \<open>
  \<open>main.py\<close> calls four things of the Python runtime whose tables are not part of the
  repository: \<open>unicodedata.normalize("NFKD", s)\<close>, \<open>unicodedata.combining(ch)\<close>,
  \<open>str.lower\<close>, and the class \<open>\d\<close> of \<open>re\<close> together with \<open>int\<close>, which both read
  the decimal-digit property of a code point. They are a parameter of every definition
  that uses them: \<open>decimal L c = Some d\<close> says that \<open>c\<close> is a decimal digit of value
  \<open>d\<close>. \<open>int_max_str_digits\<close> is the interpreter's limit on the number of digits that
  \<open>int\<close> converts (\<open>sys.get_int_max_str_digits()\<close>, 4300 by default since CPython
  3.11); 0 stands for no limit, which is also the case of an interpreter that has none.
\<close>

record pylib =
  normalize_NFKD :: "utext \<Rightarrow> utext"
  combining :: "codepoint \<Rightarrow> nat"
  lower :: "utext \<Rightarrow> utext"
  decimal :: "codepoint \<Rightarrow> nat option"
  int_max_str_digits :: nat

section \<open>Text normalizer and numeric extractor\<close>

text \<open>
  \<open>norm_text\<close>: \<open>if not s: return ""\<close> answers the empty text for \<open>None\<close> and for
  the empty string; \<open>str(s)\<close> leaves a string as it is. \<open>unicodedata.combining(ch)\<close>
  is the canonical combining class, and \<open>not\<close> of it holds when the class is 0.
\<close>

definition norm_text :: "pylib \<Rightarrow> utext option \<Rightarrow> utext" where
  "norm_text L s =
     (case s of
        None \<Rightarrow> []
      | Some t \<Rightarrow>
          if t = [] then []
          else lower L (filter (\<lambda>ch. combining L ch = 0) (normalize_NFKD L t)))"

text \<open>\<open>s.replace(u202f, "")\<close> deletes every narrow no-break space, U+202F.\<close>

definition remove_nnbsp :: "utext \<Rightarrow> utext" where
  "remove_nnbsp s = filter (\<lambda>c. c \<noteq> 0x202F) s"

definition is_digit :: "pylib \<Rightarrow> codepoint \<Rightarrow> bool" where
  "is_digit L c = (decimal L c \<noteq> None)"

text \<open>
  \<open>re.search(r"\d+", s)\<close>: the leftmost position where a digit stands, and from there
  the longest run of digits (\<open>+\<close> is greedy); \<open>None\<close> when no digit occurs.
\<close>

fun re_search_digits :: "pylib \<Rightarrow> utext \<Rightarrow> utext option" where
  "re_search_digits L [] = None"
| "re_search_digits L (c # cs) =
     (if is_digit L c then Some (takeWhile (is_digit L) (c # cs))
      else re_search_digits L cs)"

text \<open>The value of a run of decimal digits, most significant digit first. Python's
  integers are unbounded, and so is the value.\<close>

definition digit_value :: "pylib \<Rightarrow> codepoint \<Rightarrow> int" where
  "digit_value L c = (case decimal L c of None \<Rightarrow> 0 | Some d \<Rightarrow> int d)"

definition int_of_digits :: "pylib \<Rightarrow> utext \<Rightarrow> int" where
  "int_of_digits L ds = foldl (\<lambda>acc c. 10 * acc + digit_value L c) 0 ds"

text \<open>
  \<open>int(m.group())\<close> on a run of decimal digits: \<open>ValueError\<close> when the interpreter
  has a limit and the run has more digits than the limit (every digit counts, a leading
  zero too), else the value of the run.
\<close>

definition py_int :: "pylib \<Rightarrow> utext \<Rightarrow> error + int" where
  "py_int L ds =
     (if int_max_str_digits L \<noteq> 0 \<and> int_max_str_digits L < length ds then Inl ValueError
      else Inr (int_of_digits L ds))"

definition extract_first_int :: "pylib \<Rightarrow> utext option \<Rightarrow> error + int option" where
  "extract_first_int L s =
     (case s of
        None \<Rightarrow> Inr None
      | Some t \<Rightarrow>
          if t = [] then Inr None
          else (case re_search_digits L (remove_nnbsp t) of
                  None \<Rightarrow> Inr None
                | Some m \<Rightarrow>
                    (case py_int L m of Inl e \<Rightarrow> Inl e | Inr n \<Rightarrow> Inr (Some n))))"

section \<open>Region matcher\<close>

definition is_ile_de_france :: "pylib \<Rightarrow> utext option \<Rightarrow> bool" where
  "is_ile_de_france L region_string =
     (let r = norm_text L region_string in
        (str_in (lit ''ile'') r \<and> str_in (lit ''france'') r)
      \<or> (str_in (0xEE # lit ''le'') r \<and> str_in (lit ''france'') r)
      \<or> str_in (lit ''ile-de-france'') r
      \<or> str_in (lit ''ile de france'') r)"

section \<open>Seat-count heuristic\<close>

text \<open>An info entry is a JSON object with the text members \<open>title\<close> and
  \<open>description\<close>.\<close>

record info =
  title :: "utext member"
  description :: "utext member"

definition keywords_list :: "utext list" where
  "keywords_list =
     [lit ''available'',
      lit ''available seats'',
      lit ''available places'',
      lit ''places disponibles'',
      lit ''places disponibles'',
      lit ''places'',
      lit ''places disponibles (approx)'',
      lit ''places disponibles (approx.)'',
      lit ''places disponibles approximatives'',
      lit ''places disponibles approximative'']"

text \<open>
  \<open>extract_first_int(info.get("description", "") or info.get("title", ""))\<close>: the
  integer is read from the description, or from the title when the description is
  missing, \<open>null\<close> or empty.
\<close>

definition info_int :: "pylib \<Rightarrow> info \<Rightarrow> error + int option" where
  "info_int L i =
     extract_first_int L (or_else (get_or (description i) []) (get_or (title i) []))"

text \<open>\<open>combined = f"{title} {desc}"\<close>, where \<open>title\<close> is
  \<open>norm_text(info.get("title", ""))\<close> and \<open>desc\<close> likewise: a space between them.\<close>

definition combined_text :: "pylib \<Rightarrow> info \<Rightarrow> utext" where
  "combined_text L i =
     norm_text L (get_or (title i) []) @ [0x20] @ norm_text L (get_or (description i) [])"

text \<open>The inner loop \<open>for kw in keywords\<close> on one entry: at a keyword that occurs in
  \<open>combined\<close> it calls the extractor, returns the integer if there is one (or raises
  what the extractor raises), and goes on otherwise.\<close>

fun scan_keywords :: "pylib \<Rightarrow> info \<Rightarrow> utext \<Rightarrow> utext list \<Rightarrow> error + int option" where
  "scan_keywords L i combined [] = Inr None"
| "scan_keywords L i combined (kw # kws) =
     (if str_in kw combined then
        (case info_int L i of
           Inl e \<Rightarrow> Inl e
         | Inr (Some n) \<Rightarrow> Inr (Some n)
         | Inr None \<Rightarrow> scan_keywords L i combined kws)
      else scan_keywords L i combined kws)"

text \<open>The first loop \<open>for info in infos\<close> (keyword pass) and the second (fallback).\<close>

fun keyword_pass :: "pylib \<Rightarrow> info list \<Rightarrow> error + int option" where
  "keyword_pass L [] = Inr None"
| "keyword_pass L (i # rest) =
     (case scan_keywords L i (combined_text L i) keywords_list of
        Inl e \<Rightarrow> Inl e
      | Inr (Some n) \<Rightarrow> Inr (Some n)
      | Inr None \<Rightarrow> keyword_pass L rest)"

fun fallback_pass :: "pylib \<Rightarrow> info list \<Rightarrow> error + int option" where
  "fallback_pass L [] = Inr None"
| "fallback_pass L (i # rest) =
     (case info_int L i of
        Inl e \<Rightarrow> Inl e
      | Inr (Some n) \<Rightarrow> Inr (Some n)
      | Inr None \<Rightarrow> fallback_pass L rest)"

text \<open>\<open>if not infos: return None\<close> covers \<open>None\<close> and the empty list.\<close>

definition get_available_seats_from_infos ::
  "pylib \<Rightarrow> info list option \<Rightarrow> error + int option" where
  "get_available_seats_from_infos L infos =
     (case infos of
        None \<Rightarrow> Inr None
      | Some xs \<Rightarrow>
          if xs = [] then Inr None
          else (case keyword_pass L xs of
                  Inl e \<Rightarrow> Inl e
                | Inr (Some n) \<Rightarrow> Inr (Some n)
                | Inr None \<Rightarrow> fallback_pass L xs))"

text \<open>``Some keyword occurs in the combined text of the entry'': the test that the inner
  loop makes, as one predicate.\<close>

definition keyword_match :: "pylib \<Rightarrow> info \<Rightarrow> bool" where
  "keyword_match L i = list_ex (\<lambda>kw. str_in kw (combined_text L i)) keywords_list"

section \<open>Sites and the two remote collaborators\<close>

text \<open>
  A site is the JSON object of the listing endpoint, and of the detail endpoint as well:
  \<open>main\<close> puts the summary in the place of the detail when the detail request fails, so
  both have one type. \<open>site_id\<close> is the member \<open>id\<close>. Numbers are only copied, never
  computed with.
\<close>

record site_address =
  region :: "utext member"
  route :: "utext member"
  city :: "utext member"

record site_coordinates =
  latitude :: "real member"
  longitude :: "real member"

record site_location =
  address :: "site_address member"
  coordinates :: "site_coordinates member"

record site_forecast =
  occupancy :: "real member"

record site =
  site_id :: "int member"
  slug :: "utext member"
  primary_name :: "utext member"
  concat_name :: "utext member"
  location :: "site_location member"
  estimated_distance :: "real member"
  infos :: "info list member"
  current_forecast :: "site_forecast member"
  url :: "utext member"

text \<open>The empty JSON object \<open>{}\<close>, at each of the types that the program defaults to
  it.\<close>

definition empty_address :: site_address where
  "empty_address = \<lparr>region = Missing, route = Missing, city = Missing\<rparr>"

definition empty_coordinates :: site_coordinates where
  "empty_coordinates = \<lparr>latitude = Missing, longitude = Missing\<rparr>"

definition empty_location :: site_location where
  "empty_location = \<lparr>address = Missing, coordinates = Missing\<rparr>"

definition empty_forecast :: site_forecast where
  "empty_forecast = \<lparr>occupancy = Missing\<rparr>"

definition empty_site :: site where
  "empty_site =
     \<lparr>site_id = Missing, slug = Missing, primary_name = Missing, concat_name = Missing,
      location = Missing, estimated_distance = Missing, infos = Missing,
      current_forecast = Missing, url = Missing\<rparr>"

text \<open>
  What a request gives back: the transport raises (\<open>ConnectionError\<close>), or there is a
  response with a status code, the raw body \<open>resp.text\<close>, and the body as JSON:
  \<open>NotJson\<close> when \<open>resp.json()\<close> raises, else \<open>Json d\<close>, a JSON object whose member
  \<open>data\<close> is \<open>d\<close>.
\<close>

datatype 'd body = NotJson | Json "'d member"

record 'd response =
  status_code :: int
  body_text :: utext
  json :: "'d body"

datatype 'd reply = ConnectionError | Reply "'d response"

record list_data =
  results :: "site list member"

definition empty_list_data :: list_data where
  "empty_list_data = \<lparr>results = Missing\<rparr>"

section \<open>Catalog paginator\<close>

text \<open>
  \<open>payload_json.get("data", {}).get("results", [])\<close>: \<open>AttributeError\<close> when
  \<open>data\<close> is \<open>null\<close>. A \<open>results\<close> that is \<open>null\<close> ends the loop as an empty list
  does.
\<close>

definition page_results :: "list_data member \<Rightarrow> error + site list" where
  "page_results d =
     (case get_or d empty_list_data of
        None \<Rightarrow> Inl AttributeError
      | Some dd \<Rightarrow> Inr (case get_or (results dd) [] of None \<Rightarrow> [] | Some rs \<Rightarrow> rs))"

text \<open>
  The \<open>while True\<close> loop of \<open>fetch_all_library_sites\<close>. \<open>post page\<close> is what
  \<open>session.post\<close> gives for the payload with that page number. The loop state is
  \<open>page\<close>, \<open>all_sites\<close> and the list \<open>calls\<close> of the page numbers requested so
  far, which the model keeps to count the requests. The loop need not end (a collaborator
  may never send an empty page): the result is \<open>None\<close> then. \<open>time.sleep\<close> is not
  modelled.
\<close>

partial_function (option) fetch_pages ::
  "(nat \<Rightarrow> list_data reply) \<Rightarrow> nat \<Rightarrow> site list \<Rightarrow> nat list
     \<Rightarrow> ((error + site list) \<times> nat list) option"
where
  "fetch_pages post page all_sites calls =
     (case post page of
        ConnectionError \<Rightarrow> Some (Inl RequestException, calls @ [page])
      | Reply resp \<Rightarrow>
          if status_code resp \<noteq> 200 then
            Some (Inl (ListRequestFailed page (status_code resp) (body_text resp)),
                  calls @ [page])
          else
            (case json resp of
               NotJson \<Rightarrow> Some (Inl JSONDecodeError, calls @ [page])
             | Json d \<Rightarrow>
                 (case page_results d of
                    Inl e \<Rightarrow> Some (Inl e, calls @ [page])
                  | Inr rs \<Rightarrow>
                      if rs = [] then Some (Inr all_sites, calls @ [page])
                      else fetch_pages post (page + 1) (all_sites @ rs) (calls @ [page]))))"

definition fetch_all_library_sites ::
  "(nat \<Rightarrow> list_data reply) \<Rightarrow> ((error + site list) \<times> nat list) option" where
  "fetch_all_library_sites post = fetch_pages post 0 [] []"

text \<open>What one reply contributes when the loop accepts it: the results of a response with
  status 200 and a JSON body; \<open>None\<close> for a reply that makes the loop raise.\<close>

definition page_of :: "list_data reply \<Rightarrow> site list option" where
  "page_of r =
     (case r of
        ConnectionError \<Rightarrow> None
      | Reply resp \<Rightarrow>
          if status_code resp \<noteq> 200 then None
          else (case json resp of
                  NotJson \<Rightarrow> None
                | Json d \<Rightarrow> (case page_results d of Inl e \<Rightarrow> None | Inr rs \<Rightarrow> Some rs)))"

section \<open>Detail enricher\<close>

text \<open>\<open>return resp.json().get("data", {})\<close>: the result is \<open>None\<close> when \<open>data\<close> is
  \<open>null\<close>.\<close>

definition fetch_site_detail ::
  "(site_key \<Rightarrow> site reply) \<Rightarrow> site_key \<Rightarrow> error + site option" where
  "fetch_site_detail get slug_or_id =
     (case get slug_or_id of
        ConnectionError \<Rightarrow> Inl RequestException
      | Reply resp \<Rightarrow>
          if status_code resp \<noteq> 200 then
            Inl (DetailRequestFailed slug_or_id (status_code resp))
          else
            (case json resp of
               NotJson \<Rightarrow> Inl JSONDecodeError
             | Json d \<Rightarrow> Inr (get_or d empty_site)))"

section \<open>Pipeline orchestrator\<close>

record enriched =
  e_id :: "int option"
  e_slug :: "utext option"
  e_name :: "utext option"
  e_address :: "site_address option"
  e_latitude :: "real option"
  e_longitude :: "real option"
  available_seats :: "int option"
  occupancy_percent :: "real option"
  estimated_distance_m :: "real option"
  detail_url :: "utext option"

definition site_key_of :: "site \<Rightarrow> site_key" where
  "site_key_of s =
     (let by_id = (case get_member (site_id s) of None \<Rightarrow> NoKey | Some n \<Rightarrow> Ident n) in
      case get_member (slug s) of
        None \<Rightarrow> by_id
      | Some t \<Rightarrow> if t \<noteq> [] then Slug t else by_id)"

text \<open>\<open>if coords:\<close> a dictionary is true when it has a member, be it \<open>null\<close>.\<close>

definition coords_truthy :: "site_coordinates \<Rightarrow> bool" where
  "coords_truthy c = (\<not> (latitude c = Missing \<and> longitude c = Missing))"

text \<open>
  The body of the first loop of \<open>main\<close>, lines 129 to 131:
  \<open>addr = s.get("location", {}).get("address", {})\<close>, then
  \<open>region = addr.get("region", "") or ""\<close>, then the region test. Each \<open>.get\<close> on a
  \<open>null\<close> member raises.
\<close>

definition in_region :: "pylib \<Rightarrow> site \<Rightarrow> error + bool" where
  "in_region L s =
     (case get_or (location s) empty_location of
        None \<Rightarrow> Inl AttributeError
      | Some loc \<Rightarrow>
          (case get_or (address loc) empty_address of
             None \<Rightarrow> Inl AttributeError
           | Some addr \<Rightarrow>
               Inr (is_ile_de_france L (or_else (get_or (region addr) []) (Some [])))))"

text \<open>The first loop: the sites of the region, in order; an exception ends the run.\<close>

fun select_libraries :: "pylib \<Rightarrow> site list \<Rightarrow> error + site list" where
  "select_libraries L [] = Inr []"
| "select_libraries L (s # rest) =
     (case in_region L s of
        Inl e \<Rightarrow> Inl e
      | Inr keep \<Rightarrow>
          (case select_libraries L rest of
             Inl e \<Rightarrow> Inl e
           | Inr libraries \<Rightarrow> Inr (if keep then s # libraries else libraries)))"

text \<open>
  The body of the loop \<open>for s in libraries\<close>, lines 141 to 175: one record for one
  site. Whatever \<open>fetch_site_detail\<close> raises is caught, and the summary \<open>s\<close> stands for
  the detail; the warning that is printed then is not modelled. What the lines after the
  \<open>try\<close> raise is not caught: \<open>detail.get\<close> when the detail is \<open>None\<close> (line 149),
  the seat heuristic (line 150), \<open>.get("occupancy")\<close> on a \<open>null\<close> forecast (line
  152), \<open>.get("coordinates", {})\<close> on a \<open>null\<close> location (line 157).
\<close>

definition enrich :: "pylib \<Rightarrow> (site_key \<Rightarrow> site reply) \<Rightarrow> site \<Rightarrow> error + enriched" where
  "enrich L get s =
     (let detail = (case fetch_site_detail get (site_key_of s) of
                      Inl e \<Rightarrow> Some s
                    | Inr d \<Rightarrow> d)
      in case detail of
        None \<Rightarrow> Inl AttributeError
      | Some det \<Rightarrow>
          (case get_available_seats_from_infos L
                  (or_else (get_or (infos det) []) (get_or (infos s) [])) of
             Inl e \<Rightarrow> Inl e
           | Inr seats \<Rightarrow>
               (case get_or (current_forecast det) empty_forecast of
                  None \<Rightarrow> Inl AttributeError
                | Some forecast \<Rightarrow>
                    (case get_or (location s) empty_location of
                       None \<Rightarrow> Inl AttributeError
                     | Some loc \<Rightarrow>
                         (let coords = get_or (coordinates loc) empty_coordinates in
                          Inr \<lparr>e_id = get_member (site_id s),
                               e_slug = get_member (slug s),
                               e_name = or_else (get_member (primary_name s))
                                          (get_member (concat_name s)),
                               e_address = get_or (address loc) empty_address,
                               e_latitude =
                                 (case coords of
                                    None \<Rightarrow> None
                                  | Some c \<Rightarrow>
                                      if coords_truthy c then get_member (latitude c)
                                      else None),
                               e_longitude =
                                 (case coords of
                                    None \<Rightarrow> None
                                  | Some c \<Rightarrow>
                                      if coords_truthy c then get_member (longitude c)
                                      else None),
                               available_seats = seats,
                               occupancy_percent = get_member (occupancy forecast),
                               estimated_distance_m = get_member (estimated_distance s),
                               detail_url = get_member (url det)\<rparr>)))))"

text \<open>The second loop: the records in order; an exception ends the run.\<close>

fun enrich_all :: "pylib \<Rightarrow> (site_key \<Rightarrow> site reply) \<Rightarrow> site list \<Rightarrow> error + enriched list" where
  "enrich_all L get [] = Inr []"
| "enrich_all L get (s # rest) =
     (case enrich L get s of
        Inl e \<Rightarrow> Inl e
      | Inr r \<Rightarrow>
          (case enrich_all L get rest of
             Inl e \<Rightarrow> Inl e
           | Inr rs \<Rightarrow> Inr (r # rs)))"

text \<open>
  \<open>main\<close> up to the list \<open>enriched\<close>, which the CSV and the map are written from: the
  paginator, the first loop, the second loop. \<open>Inl e\<close> is a run that the exception
  \<open>e\<close> aborts.
\<close>

definition main :: "pylib \<Rightarrow> (nat \<Rightarrow> list_data reply) \<Rightarrow> (site_key \<Rightarrow> site reply)
     \<Rightarrow> (error + enriched list) option" where
  "main L post get =
     (case fetch_all_library_sites post of
        None \<Rightarrow> None
      | Some (Inl e, calls) \<Rightarrow> Some (Inl e)
      | Some (Inr all_sites, calls) \<Rightarrow>
          (case select_libraries L all_sites of
             Inl e \<Rightarrow> Some (Inl e)
           | Inr libraries \<Rightarrow> Some (enrich_all L get libraries)))"

text \<open>The coordinates object that a summary carries: \<open>location.coordinates\<close>, and the
  empty object when the location or the coordinates are missing or \<open>null\<close>.\<close>

definition site_coords_of :: "site \<Rightarrow> site_coordinates" where
  "site_coords_of s =
     (case get_member (location s) of
        None \<Rightarrow> empty_coordinates
      | Some loc \<Rightarrow>
          (case get_member (coordinates loc) of None \<Rightarrow> empty_coordinates | Some c \<Rightarrow> c))"

section \<open>The library on Latin-1 text\<close>

text \<open>
  Modelled from the spec: the tables of Python's \<open>unicodedata\<close>, \<open>str.lower\<close> and
  \<open>re\<close> are not in the repository. \<open>latin1\<close> is the instance of \<open>pylib\<close> on which
  the examples are evaluated. It gives what the library gives on a text whose code points
  are U+0000 to U+00FF or U+202F (the accented letters of French among them):
  the compatibility decomposition of each of these code points, the canonical combining
  class of the marks these decompositions produce, the lower-case mapping, and the ten
  decimal digits of that range. On any other code point it is the identity, and says
  nothing about the library. Its limit on the digits of \<open>int\<close> is the default of CPython
  3.11, 4300.
\<close>

definition latin1_decomposition :: "(codepoint \<times> utext) list" where
  "latin1_decomposition =
     [(0xA0, [0x20]), (0xA8, [0x20, 0x308]), (0xAA, [0x61]), (0xAF, [0x20, 0x304]),
      (0xB2, [0x32]), (0xB3, [0x33]), (0xB4, [0x20, 0x301]), (0xB5, [0x3BC]),
      (0xB8, [0x20, 0x327]), (0xB9, [0x31]), (0xBA, [0x6F]), (0xBC, [0x31, 0x2044, 0x34]),
      (0xBD, [0x31, 0x2044, 0x32]), (0xBE, [0x33, 0x2044, 0x34]), (0xC0, [0x41, 0x300]),
      (0xC1, [0x41, 0x301]), (0xC2, [0x41, 0x302]), (0xC3, [0x41, 0x303]),
      (0xC4, [0x41, 0x308]), (0xC5, [0x41, 0x30A]), (0xC7, [0x43, 0x327]),
      (0xC8, [0x45, 0x300]), (0xC9, [0x45, 0x301]), (0xCA, [0x45, 0x302]),
      (0xCB, [0x45, 0x308]), (0xCC, [0x49, 0x300]), (0xCD, [0x49, 0x301]),
      (0xCE, [0x49, 0x302]), (0xCF, [0x49, 0x308]), (0xD1, [0x4E, 0x303]),
      (0xD2, [0x4F, 0x300]), (0xD3, [0x4F, 0x301]), (0xD4, [0x4F, 0x302]),
      (0xD5, [0x4F, 0x303]), (0xD6, [0x4F, 0x308]), (0xD9, [0x55, 0x300]),
      (0xDA, [0x55, 0x301]), (0xDB, [0x55, 0x302]), (0xDC, [0x55, 0x308]),
      (0xDD, [0x59, 0x301]), (0xE0, [0x61, 0x300]), (0xE1, [0x61, 0x301]),
      (0xE2, [0x61, 0x302]), (0xE3, [0x61, 0x303]), (0xE4, [0x61, 0x308]),
      (0xE5, [0x61, 0x30A]), (0xE7, [0x63, 0x327]), (0xE8, [0x65, 0x300]),
      (0xE9, [0x65, 0x301]), (0xEA, [0x65, 0x302]), (0xEB, [0x65, 0x308]),
      (0xEC, [0x69, 0x300]), (0xED, [0x69, 0x301]), (0xEE, [0x69, 0x302]),
      (0xEF, [0x69, 0x308]), (0xF1, [0x6E, 0x303]), (0xF2, [0x6F, 0x300]),
      (0xF3, [0x6F, 0x301]), (0xF4, [0x6F, 0x302]), (0xF5, [0x6F, 0x303]),
      (0xF6, [0x6F, 0x308]), (0xF9, [0x75, 0x300]), (0xFA, [0x75, 0x301]),
      (0xFB, [0x75, 0x302]), (0xFC, [0x75, 0x308]), (0xFD, [0x79, 0x301]),
      (0xFF, [0x79, 0x308]), (0x202F, [0x20])]"

definition latin1_decomp :: "codepoint \<Rightarrow> utext" where
  "latin1_decomp c = (case map_of latin1_decomposition c of None \<Rightarrow> [c] | Some d \<Rightarrow> d)"

definition latin1_nfkd :: "utext \<Rightarrow> utext" where
  "latin1_nfkd s = concat (map latin1_decomp s)"

definition latin1_combining :: "codepoint \<Rightarrow> nat" where
  "latin1_combining c =
     (if c \<in> set [0x300, 0x301, 0x302, 0x303, 0x304, 0x308, 0x30A] then 230
      else if c = 0x327 then 202
      else 0)"

definition latin1_lower :: "utext \<Rightarrow> utext" where
  "latin1_lower s =
     map (\<lambda>c. if (0x41 \<le> c \<and> c \<le> 0x5A) \<or> (0xC0 \<le> c \<and> c \<le> 0xDE \<and> c \<noteq> 0xD7)
               then c + 0x20 else c) s"

definition latin1_decimal :: "codepoint \<Rightarrow> nat option" where
  "latin1_decimal c = (if 0x30 \<le> c \<and> c \<le> 0x39 then Some (c - 0x30) else None)"

definition latin1 :: pylib where
  "latin1 =
     \<lparr>normalize_NFKD = latin1_nfkd, combining = latin1_combining,
      lower = latin1_lower, decimal = latin1_decimal, int_max_str_digits = 4300\<rparr>"

section \<open>Sample inputs\<close>

text \<open>The info entries of the spec's examples, and some more: an entry that matches a
  keyword later in a list, a line that gives a total capacity in ``places'', and three
  entries whose description is missing, empty or \<open>null\<close>, so that the number stands in
  the title.\<close>

definition info_horaires :: info where
  "info_horaires = \<lparr>title = Val (lit ''Horaires''), description = Val (lit ''9h-18h'')\<rparr>"

definition info_places :: info where
  "info_places =
     \<lparr>title = Val (lit ''Places disponibles''),
      description = Val (lit ''12 places libres'')\<rparr>"







text \<open>A site of the target region with one info entry and no forecast; the same site
  with a forecast that is \<open>null\<close>; a site whose coordinates hold a latitude and no
  longitude; and the records that \<open>main\<close> builds from the first and the third when the
  detail request fails.\<close>

definition idf_address :: site_address where
  "idf_address =
     \<lparr>region = Val (0xCE # lit ''le-de-France''), route = Val (lit ''10 rue Cujas''),
      city = Val (lit ''Paris'')\<rparr>"

definition site_cujas :: site where
  "site_cujas =
     empty_site
       \<lparr>site_id := Val 17, slug := Val (lit ''bib-cujas''),
        primary_name := Val (lit ''Cujas''),
        location := Val \<lparr>address = Val idf_address, coordinates = Missing\<rparr>,
        infos := Val [info_places]\<rparr>"

definition site_null_forecast :: site where
  "site_null_forecast = site_cujas\<lparr>current_forecast := Null\<rparr>"

definition site_lat_only :: site where
  "site_lat_only =
     empty_site
       \<lparr>site_id := Val 18, slug := Val (lit ''bib-nord''),
        location :=
          Val \<lparr>address = Val idf_address,
               coordinates = Val \<lparr>latitude = Val 48, longitude = Missing\<rparr>\<rparr>\<rparr>"

definition record_cujas :: enriched where
  "record_cujas =
     \<lparr>e_id = Some 17, e_slug = Some (lit ''bib-cujas''), e_name = Some (lit ''Cujas''),
      e_address = Some idf_address, e_latitude = None, e_longitude = None,
      available_seats = Some 12, occupancy_percent = None, estimated_distance_m = None,
      detail_url = None\<rparr>"

definition record_lat_only :: enriched where
  "record_lat_only =
     \<lparr>e_id = Some 18, e_slug = Some (lit ''bib-nord''), e_name = None,
      e_address = Some idf_address, e_latitude = Some 48, e_longitude = None,
      available_seats = None, occupancy_percent = None, estimated_distance_m = None,
      detail_url = None\<rparr>"

text \<open>Fake collaborators. A list endpoint that serves the given pages and then empty
  pages; one that answers 503 from page 1 on; a detail endpoint that always answers
  500.\<close>

definition ok_page :: "site list \<Rightarrow> list_data reply" where
  "ok_page rs =
     Reply \<lparr>status_code = 200, body_text = [], json = Json (Val \<lparr>results = Val rs\<rparr>)\<rparr>"

definition serve_pages :: "site list list \<Rightarrow> nat \<Rightarrow> list_data reply" where
  "serve_pages pages n = (if n < length pages then ok_page (pages ! n) else ok_page [])"

definition unavailable :: "list_data response" where
  "unavailable = \<lparr>status_code = 503, body_text = lit ''Service Unavailable'', json = NotJson\<rparr>"

definition failing_list :: "nat \<Rightarrow> list_data reply" where
  "failing_list n = (if n = 0 then ok_page [site_cujas] else Reply unavailable)"

definition failing_detail :: "site_key \<Rightarrow> site reply" where
  "failing_detail k = Reply \<lparr>status_code = 500, body_text = [], json = NotJson\<rparr>"

text \<open>A detail endpoint that answers 200 with the body \<open>{"data": null}\<close>, and a site
  whose location is \<open>null\<close>.\<close>

definition null_detail :: "site_key \<Rightarrow> site reply" where
  "null_detail k = Reply \<lparr>status_code = 200, body_text = [], json = Json Null\<rparr>"

definition site_null_location :: site where
  "site_null_location = site_cujas\<lparr>location := Null\<rparr>"

section \<open>Substrings and the keyword list\<close>

lemma startswith_iff: "startswith kw s \<longleftrightarrow> (\<exists>q. s = kw @ q)"
  by (induction kw s rule: startswith.induct) auto

lemma str_in_iff: "str_in kw s \<longleftrightarrow> (\<exists>p q. s = p @ kw @ q)"
proof (induction s)
  case Nil
  then show ?case by simp
next
  case (Cons c cs)
  show ?case
  proof
    assume "str_in kw (c # cs)"
    then consider "startswith kw (c # cs)" | "str_in kw cs" by auto
    then show "\<exists>p q. c # cs = p @ kw @ q"
    proof cases
      case 1
      then obtain q where "c # cs = kw @ q" using startswith_iff by blast
      then have "c # cs = [] @ kw @ q" by simp
      then show ?thesis by blast
    next
      case 2
      then obtain p q where "cs = p @ kw @ q" using Cons.IH by blast
      then have "c # cs = (c # p) @ kw @ q" by simp
      then show ?thesis by blast
    qed
  next
    assume "\<exists>p q. c # cs = p @ kw @ q"
    then obtain p q where pq: "c # cs = p @ kw @ q" by blast
    show "str_in kw (c # cs)"
    proof (cases p)
      case Nil
      with pq have "startswith kw (c # cs)" using startswith_iff by fastforce
      then show ?thesis by simp
    next
      case (Cons a p')
      with pq have "cs = p' @ kw @ q" by simp
      then have "str_in kw cs" using Cons.IH by blast
      then show ?thesis by simp
    qed
  qed
qed

lemma str_in_trans: "str_in a b \<Longrightarrow> str_in b c \<Longrightarrow> str_in a c"
proof -
  assume "str_in a b" "str_in b c"
  then obtain p q p' q' where "b = p @ a @ q" "c = p' @ b @ q'"
    unfolding str_in_iff by blast
  then have "c = (p' @ p) @ a @ (q @ q')" by simp
  then show ?thesis unfolding str_in_iff by blast
qed

lemma scan_keywords_eq:
  "scan_keywords L i c kws
     = (if list_ex (\<lambda>kw. str_in kw c) kws then info_int L i else Inr None)"
  by (induction kws) (auto split: sum.splits option.splits)


section \<open>Evaluating the Latin-1 library\<close>

lemma latin1_decomp_plain: "c < 0xA0 \<Longrightarrow> latin1_decomp c = [c]"
proof -
  assume "c < 0xA0"
  then have "c \<notin> fst ` set latin1_decomposition"
    by (auto simp: latin1_decomposition_def)
  then have "map_of latin1_decomposition c = None"
    by (simp add: map_of_eq_None_iff)
  then show ?thesis by (simp add: latin1_decomp_def)
qed

lemma latin1_decomp_CE: "latin1_decomp 0xCE = [0x49, 0x302]"
  by (simp add: latin1_decomp_def latin1_decomposition_def)

lemma latin1_decomp_E9: "latin1_decomp 0xE9 = [0x65, 0x301]"
  by (simp add: latin1_decomp_def latin1_decomposition_def)

lemmas latin1_eval =
  latin1_def lit_def latin1_nfkd_def latin1_decomp_plain latin1_decomp_CE latin1_decomp_E9
  latin1_combining_def latin1_lower_def latin1_decimal_def norm_text_def
  extract_first_int_def remove_nnbsp_def is_digit_def py_int_def int_of_digits_def
  digit_value_def get_or_def or_else_def

lemmas seats_eval =
  info_int_def combined_text_def keyword_match_def keywords_list_def

section \<open>Seat-count heuristic\<close>

lemma keyword_match_scan:
  "scan_keywords L i (combined_text L i) keywords_list
     = (if keyword_match L i then info_int L i else Inr None)"
  by (simp add: scan_keywords_eq keyword_match_def)


lemma keyword_pass_hit:
  "keyword_match L e \<Longrightarrow> info_int L e = Inr (Some n) \<Longrightarrow>
   keyword_pass L (e # post) = Inr (Some n)"
  by (simp add: keyword_match_scan)








lemma places_eval:
  "keyword_match latin1 info_places \<and> info_int latin1 info_places = Inr (Some 12)"
  by (simp add: info_places_def seats_eval latin1_eval)




lemma horaires_int_eval: "info_int latin1 info_horaires = Inr (Some 9)"
  by (simp add: info_horaires_def seats_eval latin1_eval)










section \<open>Numeric extractor\<close>

lemma re_search_digits_none:
  "\<forall>c\<in>set s. \<not> is_digit L c \<Longrightarrow> re_search_digits L s = None"
  by (induction s) auto

lemma takeWhile_run:
  "\<forall>c\<in>set run. P c \<Longrightarrow> post = [] \<or> \<not> P (hd post) \<Longrightarrow> takeWhile P (run @ post) = run"
  by (cases post) (auto simp: takeWhile_append)

lemma re_search_digits_run:
  assumes "\<forall>c\<in>set pre. \<not> is_digit L c" and "run \<noteq> []" and "\<forall>c\<in>set run. is_digit L c"
    and "post = [] \<or> \<not> is_digit L (hd post)"
  shows "re_search_digits L (pre @ run @ post) = Some run"
  using assms(1)
proof (induction pre)
  case Nil
  obtain r rs where run: "run = r # rs" using assms(2) by (cases run) auto
  then have "is_digit L r" using assms(3) by simp
  moreover have "takeWhile (is_digit L) (run @ post) = run"
    using assms(3,4) by (rule takeWhile_run)
  ultimately show ?case using run by simp
next
  case (Cons a pre)
  then show ?case by simp
qed

lemma int_of_digits_snoc:
  "int_of_digits L (ds @ [d]) = 10 * int_of_digits L ds + digit_value L d"
  by (simp add: int_of_digits_def)

text \<open>
  C5, as the code has it. The extractor deletes every U+202F and looks for the leftmost
  maximal run of decimal digits of what is left: the run is preceded by no digit, is made
  of digits, and is followed by the end of the text or by a character that is not a digit.
  When the run has no more digits than the interpreter's limit for \<open>int\<close> (or the
  interpreter has no limit), the extractor returns the value of the run. It returns absent
  when no digit is left, and on an empty or absent input. No other separator is deleted:
  ``places disponibles : 42'' gives 42, ``1[U+202F]234 places'' gives 1234, ``aucune
  info'' and the empty text give absent, and ``1.234 places'' gives 1.
\<close>

theorem extract_first_int_first_run:
  "extract_first_int L None = Inr None
   \<and> extract_first_int L (Some []) = Inr None
   \<and> ((\<forall>c\<in>set (filter (\<lambda>c. c \<noteq> 0x202F) s). \<not> is_digit L c)
        \<longrightarrow> extract_first_int L (Some s) = Inr None)
   \<and> (filter (\<lambda>c. c \<noteq> 0x202F) s = pre @ run @ post
        \<and> (\<forall>c\<in>set pre. \<not> is_digit L c)
        \<and> run \<noteq> [] \<and> (\<forall>c\<in>set run. is_digit L c)
        \<and> (post = [] \<or> \<not> is_digit L (hd post))
        \<and> (int_max_str_digits L = 0 \<or> length run \<le> int_max_str_digits L)
        \<longrightarrow> extract_first_int L (Some s) = Inr (Some (int_of_digits L run)))
   \<and> extract_first_int latin1 (Some (lit ''places disponibles : 42'')) = Inr (Some 42)
   \<and> extract_first_int latin1 (Some (lit ''1'' @ [0x202F] @ lit ''234 places''))
       = Inr (Some 1234)
   \<and> extract_first_int latin1 (Some (lit ''aucune info'')) = Inr None
   \<and> extract_first_int latin1 (Some (lit ''1.234 places'')) = Inr (Some 1)"
proof (intro conjI impI)
  show "extract_first_int L None = Inr None" by (simp add: extract_first_int_def)
  show "extract_first_int L (Some []) = Inr None" by (simp add: extract_first_int_def)
next
  assume "\<forall>c\<in>set (filter (\<lambda>c. c \<noteq> 0x202F) s). \<not> is_digit L c"
  then have "re_search_digits L (remove_nnbsp s) = None"
    unfolding remove_nnbsp_def by (rule re_search_digits_none)
  then show "extract_first_int L (Some s) = Inr None" by (simp add: extract_first_int_def)
next
  assume h: "filter (\<lambda>c. c \<noteq> 0x202F) s = pre @ run @ post
        \<and> (\<forall>c\<in>set pre. \<not> is_digit L c)
        \<and> run \<noteq> [] \<and> (\<forall>c\<in>set run. is_digit L c)
        \<and> (post = [] \<or> \<not> is_digit L (hd post))
        \<and> (int_max_str_digits L = 0 \<or> length run \<le> int_max_str_digits L)"
  then have "re_search_digits L (pre @ run @ post) = Some run"
    by (intro re_search_digits_run) simp_all
  moreover have "s \<noteq> []" using h by auto
  moreover have "py_int L run = Inr (int_of_digits L run)"
    using h by (auto simp: py_int_def)
  ultimately show "extract_first_int L (Some s) = Inr (Some (int_of_digits L run))"
    using h by (simp add: extract_first_int_def remove_nnbsp_def)
next
  show "extract_first_int latin1 (Some (lit ''places disponibles : 42'')) = Inr (Some 42)"
    by (simp add: latin1_eval)
  show "extract_first_int latin1 (Some (lit ''1'' @ [0x202F] @ lit ''234 places''))
       = Inr (Some 1234)"
    by (simp add: latin1_eval)
  show "extract_first_int latin1 (Some (lit ''aucune info'')) = Inr None"
    by (simp add: latin1_eval)
  show "extract_first_int latin1 (Some (lit ''1.234 places'')) = Inr (Some 1)"
    by (simp add: latin1_eval)
qed

theorem extract_first_int_first_run_witness:
  "extract_first_int latin1 (Some (lit ''le 1'' @ [0x202F] @ lit ''234'' @ [0x202F] @ lit ''567e''))
     = Inr (Some 1234567)"
  using extract_first_int_first_run
    [of latin1 "lit ''le 1'' @ [0x202F] @ lit ''234'' @ [0x202F] @ lit ''567e''"
        "lit ''le ''" "lit ''1234567''" "lit ''e''"]
  by (simp add: lit_def is_digit_def latin1_def latin1_decimal_def int_of_digits_def
      digit_value_def)

text \<open>C5 as the spec states it fails: with the default limit of CPython 3.11, a text that
  is a run of 4301 digits (here the digit 1, U+0031) makes \<open>int\<close> raise
  \<open>ValueError\<close>, and the extractor with it.\<close>

theorem extract_first_int_digit_limit:
  "extract_first_int latin1 (Some (replicate 4301 0x31)) = Inl ValueError"
proof -
  have d: "is_digit latin1 0x31"
    by (simp add: is_digit_def latin1_def latin1_decimal_def)
  have "re_search_digits latin1 ([] @ replicate 4301 0x31 @ []) = Some (replicate 4301 0x31)"
    by (rule re_search_digits_run) (simp_all add: d)
  moreover have "remove_nnbsp (replicate 4301 0x31) = replicate 4301 0x31"
    by (simp add: remove_nnbsp_def)
  moreover have "py_int latin1 (replicate 4301 0x31) = Inl ValueError"
    by (simp add: py_int_def latin1_def)
  ultimately show ?thesis by (simp add: extract_first_int_def)
qed

section \<open>Region matcher\<close>

text \<open>
  C4. The region test normalizes its argument and is true exactly when the normalized text
  contains ``ile'' (written with or without the circumflex) and ``france'', or contains
  ``ile-de-france'' or ``ile de france''. It is true for ``[U+00CE]le-de-France'',
  ``ILE DE FRANCE'' and ``Region Ile-de-France'', and false for ``Bretagne'', for the
  empty text and for an absent argument.
\<close>

theorem is_ile_de_france_iff:
  "(is_ile_de_france L r \<longleftrightarrow>
      ((str_in (lit ''ile'') (norm_text L r) \<or> str_in (0xEE # lit ''le'') (norm_text L r))
        \<and> str_in (lit ''france'') (norm_text L r))
      \<or> str_in (lit ''ile-de-france'') (norm_text L r)
      \<or> str_in (lit ''ile de france'') (norm_text L r))
   \<and> is_ile_de_france latin1 (Some (0xCE # lit ''le-de-France''))
   \<and> is_ile_de_france latin1 (Some (lit ''ILE DE FRANCE''))
   \<and> is_ile_de_france latin1 (Some (lit ''Region Ile-de-France''))
   \<and> \<not> is_ile_de_france latin1 (Some (lit ''Bretagne''))
   \<and> \<not> is_ile_de_france latin1 (Some [])
   \<and> \<not> is_ile_de_france latin1 None"
proof (intro conjI)
  show "is_ile_de_france L r \<longleftrightarrow>
      ((str_in (lit ''ile'') (norm_text L r) \<or> str_in (0xEE # lit ''le'') (norm_text L r))
        \<and> str_in (lit ''france'') (norm_text L r))
      \<or> str_in (lit ''ile-de-france'') (norm_text L r)
      \<or> str_in (lit ''ile de france'') (norm_text L r)"
    unfolding is_ile_de_france_def Let_def by blast
  show "is_ile_de_france latin1 (Some (0xCE # lit ''le-de-France''))"
    by (simp add: is_ile_de_france_def latin1_eval)
  show "is_ile_de_france latin1 (Some (lit ''ILE DE FRANCE''))"
    by (simp add: is_ile_de_france_def latin1_eval)
  show "is_ile_de_france latin1 (Some (lit ''Region Ile-de-France''))"
    by (simp add: is_ile_de_france_def latin1_eval)
  show "\<not> is_ile_de_france latin1 (Some (lit ''Bretagne''))"
    by (simp add: is_ile_de_france_def latin1_eval)
  show "\<not> is_ile_de_france latin1 (Some [])"
    by (simp add: is_ile_de_france_def latin1_eval)
  show "\<not> is_ile_de_france latin1 None"
    by (simp add: is_ile_de_france_def latin1_eval)
qed

theorem is_ile_de_france_iff_witness:
  "is_ile_de_france latin1 (Some (lit ''FRANCE (ILE DE)''))
   \<and> norm_text latin1 (Some (lit ''FRANCE (ILE DE)'')) = lit ''france (ile de)''"
  using is_ile_de_france_iff [of latin1 "Some (lit ''FRANCE (ILE DE)'')"]
  by (simp add: latin1_eval)

text \<open>The two compound tests add nothing: a text that contains a compound contains
  ``ile'' and ``france''.\<close>

lemma is_ile_de_france_two_tokens:
  "is_ile_de_france L r \<longleftrightarrow>
     (str_in (lit ''ile'') (norm_text L r) \<or> str_in (0xEE # lit ''le'') (norm_text L r))
       \<and> str_in (lit ''france'') (norm_text L r)"
proof -
  have a: "str_in (lit ''ile'') (lit ''ile-de-france'')" "str_in (lit ''france'') (lit ''ile-de-france'')"
    "str_in (lit ''ile'') (lit ''ile de france'')" "str_in (lit ''france'') (lit ''ile de france'')"
    by (simp_all add: lit_def)
  show ?thesis
    unfolding is_ile_de_france_def Let_def using a str_in_trans by blast
qed

section \<open>Catalog paginator\<close>

lemma fetch_pages_accept:
  "page_of (post page) = Some rs \<Longrightarrow>
   fetch_pages post page all_sites calls =
     (if rs = [] then Some (Inr all_sites, calls @ [page])
      else fetch_pages post (page + 1) (all_sites @ rs) (calls @ [page]))"
  by (subst fetch_pages.simps)
     (auto simp: page_of_def split: reply.splits body.splits sum.splits if_splits)

lemma fetch_pages_status:
  "post page = Reply resp \<Longrightarrow> status_code resp \<noteq> 200 \<Longrightarrow>
   fetch_pages post page all_sites calls =
     Some (Inl (ListRequestFailed page (status_code resp) (body_text resp)), calls @ [page])"
  by (subst fetch_pages.simps) simp

text \<open>A run of non-empty pages moves the loop forward by as many iterations.\<close>

lemma fetch_pages_prefix:
  "\<forall>i<length pages. page_of (post (page + i)) = Some (pages ! i) \<and> pages ! i \<noteq> [] \<Longrightarrow>
   fetch_pages post page all_sites calls =
     fetch_pages post (page + length pages) (all_sites @ concat pages)
       (calls @ [page..<page + length pages])"
proof (induction pages arbitrary: page all_sites calls)
  case Nil
  then show ?case by simp
next
  case (Cons rs pages)
  have first: "page_of (post page) = Some rs" "rs \<noteq> []"
    using Cons.prems by force+
  have rest: "\<forall>i<length pages. page_of (post (Suc page + i)) = Some (pages ! i) \<and> pages ! i \<noteq> []"
  proof (intro allI impI)
    fix i assume "i < length pages"
    then have "Suc i < length (rs # pages)" by simp
    then have "page_of (post (page + Suc i)) = Some ((rs # pages) ! Suc i)
        \<and> (rs # pages) ! Suc i \<noteq> []"
      using Cons.prems by blast
    then show "page_of (post (Suc page + i)) = Some (pages ! i) \<and> pages ! i \<noteq> []" by simp
  qed
  have "fetch_pages post page all_sites calls
          = fetch_pages post (Suc page) (all_sites @ rs) (calls @ [page])"
    using first by (simp add: fetch_pages_accept)
  also have "\<dots> = fetch_pages post (Suc page + length pages) ((all_sites @ rs) @ concat pages)
       ((calls @ [page]) @ [Suc page..<Suc page + length pages])"
    using rest by (rule Cons.IH)
  also have "(calls @ [page]) @ [Suc page..<Suc page + length pages]
      = calls @ [page..<page + length (rs # pages)]"
    using upt_conv_Cons [of page "Suc page + length pages"] by simp
  finally show ?case by simp
qed

text \<open>
  C6. When the collaborator's pages 0, 1, ... are some non-empty result lists followed by
  an empty one, the paginator returns: its result is the concatenation of the non-empty
  pages, in page order, and it has requested each page up to and including the empty one
  exactly once, in order. For two non-empty pages and an empty third the result is the
  first page followed by the second, after the three requests 0, 1, 2.
\<close>

theorem fetch_all_concatenates_pages:
  "((\<forall>i<length pages. page_of (post i) = Some (pages ! i) \<and> pages ! i \<noteq> [])
      \<and> page_of (post (length pages)) = Some []
      \<longrightarrow> fetch_all_library_sites post
            = Some (Inr (concat pages), [0..<Suc (length pages)]))
   \<and> (page_of (post 0) = Some p0 \<and> p0 \<noteq> [] \<and> page_of (post 1) = Some p1 \<and> p1 \<noteq> []
        \<and> page_of (post 2) = Some []
      \<longrightarrow> fetch_all_library_sites post = Some (Inr (p0 @ p1), [0, 1, 2]))"
proof -
  have gen: "fetch_all_library_sites post = Some (Inr (concat pages), [0..<Suc (length pages)])"
    if h: "\<forall>i<length pages. page_of (post i) = Some (pages ! i) \<and> pages ! i \<noteq> []"
      and e: "page_of (post (length pages)) = Some []"
    for pages :: "site list list"
  proof -
    have "fetch_pages post 0 [] [] =
        fetch_pages post (0 + length pages) ([] @ concat pages) ([] @ [0..<0 + length pages])"
      by (rule fetch_pages_prefix) (use h in simp)
    also have "\<dots> = Some (Inr (concat pages), [0..<length pages] @ [length pages])"
      using e by (simp add: fetch_pages_accept)
    finally show ?thesis by (simp add: fetch_all_library_sites_def)
  qed
  have two: "fetch_all_library_sites post = Some (Inr (p0 @ p1), [0, 1, 2])"
    if h: "page_of (post 0) = Some p0 \<and> p0 \<noteq> [] \<and> page_of (post 1) = Some p1 \<and> p1 \<noteq> []
        \<and> page_of (post 2) = Some []"
  proof -
    have "\<forall>i<length [p0, p1]. page_of (post i) = Some ([p0, p1] ! i) \<and> [p0, p1] ! i \<noteq> []"
      using h by (auto simp: less_Suc_eq)
    moreover have "page_of (post (length [p0, p1])) = Some []"
      using h by (simp add: numeral_2_eq_2)
    ultimately have "fetch_all_library_sites post
        = Some (Inr (concat [p0, p1]), [0..<Suc (length [p0, p1])])"
      by (rule gen)
    moreover have "[0..<Suc (length [p0, p1])] = [0, 1, 2]"
      by (simp add: upt_rec numeral_2_eq_2)
    ultimately show ?thesis by simp
  qed
  show ?thesis using gen two by blast
qed

theorem fetch_all_concatenates_pages_witness:
  "fetch_all_library_sites (serve_pages [[site_cujas, site_lat_only], [site_cujas]])
     = Some (Inr [site_cujas, site_lat_only, site_cujas], [0, 1, 2])"
  using fetch_all_concatenates_pages
    [of "[[site_cujas, site_lat_only], [site_cujas]]"
        "serve_pages [[site_cujas, site_lat_only], [site_cujas]]"]
  by (simp add: serve_pages_def ok_page_def page_of_def page_results_def get_or_def
      less_Suc_eq upt_rec numeral_2_eq_2)

text \<open>
  C8. When the pages before page \<open>k\<close> are accepted and not empty and the response for
  page \<open>k\<close> has a status other than 200, the paginator raises: the error carries the page
  number \<open>k\<close>, the status and the body of that response; no site of the earlier pages is
  returned; and page \<open>k\<close> is requested once, as the last request.
\<close>

theorem fetch_all_fails_on_status:
  "(\<forall>i<length pages. page_of (post i) = Some (pages ! i) \<and> pages ! i \<noteq> [])
     \<and> post (length pages) = Reply resp \<and> status_code resp \<noteq> 200
   \<longrightarrow> fetch_all_library_sites post
        = Some (Inl (ListRequestFailed (length pages) (status_code resp) (body_text resp)),
                [0..<Suc (length pages)])"
proof
  assume h: "(\<forall>i<length pages. page_of (post i) = Some (pages ! i) \<and> pages ! i \<noteq> [])
     \<and> post (length pages) = Reply resp \<and> status_code resp \<noteq> 200"
  have "fetch_pages post 0 [] [] =
      fetch_pages post (0 + length pages) ([] @ concat pages) ([] @ [0..<0 + length pages])"
    by (rule fetch_pages_prefix) (use h in simp)
  also have "\<dots> = Some (Inl (ListRequestFailed (length pages) (status_code resp) (body_text resp)),
                [0..<length pages] @ [length pages])"
    using h by (simp add: fetch_pages_status)
  finally show "fetch_all_library_sites post
        = Some (Inl (ListRequestFailed (length pages) (status_code resp) (body_text resp)),
                [0..<Suc (length pages)])"
    by (simp add: fetch_all_library_sites_def)
qed

theorem fetch_all_fails_on_status_witness:
  "fetch_all_library_sites failing_list
     = Some (Inl (ListRequestFailed 1 503 (lit ''Service Unavailable'')), [0, 1])"
  using fetch_all_fails_on_status [of "[[site_cujas]]" failing_list unavailable]
  by (simp add: failing_list_def unavailable_def ok_page_def page_of_def page_results_def
      get_or_def upt_rec)

section \<open>Pipeline orchestrator\<close>

lemma or_else_same: "or_else a a = a"
  by (simp add: or_else_def split: option.splits)

text \<open>The loop body on the fallback path. When the detail request fails, the record is
  built from the summary, provided that the seat heuristic returns and that neither the
  forecast nor the location of the summary is \<open>null\<close>; a \<open>null\<close> forecast raises.\<close>

lemma enrich_on_failure:
  assumes "fetch_site_detail get (site_key_of s) = Inl err"
    and "get_available_seats_from_infos L (get_or (infos s) []) = Inr seats"
    and "current_forecast s \<noteq> Null" and "location s \<noteq> Null"
  shows "\<exists>r. enrich L get s = Inr r
           \<and> e_id r = get_member (site_id s) \<and> e_slug r = get_member (slug s)
           \<and> available_seats r = seats
           \<and> occupancy_percent r
               = (case current_forecast s of
                    Val f \<Rightarrow> get_member (occupancy f) | Missing \<Rightarrow> None | Null \<Rightarrow> None)"
  using assms
  by (cases "current_forecast s"; cases "location s")
     (simp_all add: enrich_def Let_def or_else_same get_or_def empty_forecast_def
       get_member_def)

lemma enrich_null_forecast:
  assumes "fetch_site_detail get (site_key_of s) = Inl err"
    and "get_available_seats_from_infos L (get_or (infos s) []) = Inr seats"
    and "current_forecast s = Null"
  shows "enrich L get s = Inl AttributeError"
  using assms by (simp add: enrich_def Let_def or_else_same get_or_def)

lemma failing_detail_eval:
  "fetch_site_detail failing_detail k = Inl (DetailRequestFailed k 500)"
  by (simp add: fetch_site_detail_def failing_detail_def)

lemma idf_region_eval:
  "is_ile_de_france latin1 (or_else (get_or (region idf_address) []) (Some []))"
  by (simp add: idf_address_def is_ile_de_france_def latin1_eval)

lemma site_cujas_region: "in_region latin1 site_cujas = Inr True"
  using idf_region_eval
  by (simp add: in_region_def site_cujas_def empty_site_def get_or_def)

lemma site_null_forecast_region: "in_region latin1 site_null_forecast = Inr True"
  using idf_region_eval
  by (simp add: in_region_def site_null_forecast_def site_cujas_def empty_site_def get_or_def)

lemma site_lat_only_region: "in_region latin1 site_lat_only = Inr True"
  using idf_region_eval
  by (simp add: in_region_def site_lat_only_def empty_site_def get_or_def)

lemma serve_one_page:
  "fetch_all_library_sites (serve_pages [[s]]) = Some (Inr [s], [0, 1])"
proof -
  have "fetch_pages (serve_pages [[s]]) 0 [] [] = fetch_pages (serve_pages [[s]]) 1 [s] [0]"
    by (simp add: fetch_pages_accept [of _ _ "[s]"] serve_pages_def ok_page_def page_of_def
        page_results_def get_or_def)
  also have "\<dots> = Some (Inr [s], [0, 1])"
    by (simp add: fetch_pages_accept [of _ _ "[]"] serve_pages_def ok_page_def page_of_def
        page_results_def get_or_def)
  finally show ?thesis by (simp add: fetch_all_library_sites_def)
qed

lemma places_seats: "get_available_seats_from_infos latin1 (Some [info_places]) = Inr (Some 12)"
  using places_eval keyword_pass_hit [of latin1 info_places 12 "[]"]
  by (simp add: get_available_seats_from_infos_def)

lemma enrich_cujas: "enrich latin1 failing_detail site_cujas = Inr record_cujas"
  using places_seats
  by (simp add: enrich_def Let_def failing_detail_eval site_cujas_def empty_site_def
      record_cujas_def or_else_def get_or_def get_member_def site_key_of_def
      empty_forecast_def empty_coordinates_def coords_truthy_def lit_def)

lemma enrich_null_forecast_eval:
  "enrich latin1 failing_detail site_null_forecast = Inl AttributeError"
  using places_seats
  by (simp add: enrich_def Let_def failing_detail_eval site_null_forecast_def site_cujas_def
      empty_site_def or_else_def get_or_def)

lemma enrich_lat_only: "enrich latin1 failing_detail site_lat_only = Inr record_lat_only"
  by (simp add: enrich_def Let_def failing_detail_eval site_lat_only_def empty_site_def
      record_lat_only_def or_else_def get_or_def get_member_def site_key_of_def
      empty_forecast_def coords_truthy_def get_available_seats_from_infos_def lit_def)

text \<open>The other two places where a \<open>null\<close> aborts the run: a detail whose \<open>data\<close> is
  \<open>null\<close> is not a failure of the request, so the summary does not stand in, and line
  149 raises; a summary whose location is \<open>null\<close> makes the first loop raise at line
  129.\<close>

lemma main_aborts_on_null_detail:
  "main latin1 (serve_pages [[site_cujas]]) null_detail = Some (Inl AttributeError)"
proof -
  have "enrich latin1 null_detail site_cujas = Inl AttributeError"
    by (simp add: enrich_def Let_def fetch_site_detail_def null_detail_def get_or_def)
  then show ?thesis
    by (simp add: main_def serve_one_page site_cujas_region)
qed

lemma main_aborts_on_null_location:
  "main latin1 (serve_pages [[site_null_location]]) failing_detail = Some (Inl AttributeError)"
proof -
  have "in_region latin1 site_null_location = Inl AttributeError"
    by (simp add: in_region_def site_null_location_def get_or_def)
  then show ?thesis
    by (simp add: main_def serve_one_page)
qed

text \<open>
  C7. The code breaks the claim on a summary whose \<open>current_forecast\<close> is \<open>null\<close>.
  The catalog holds one site of the target region, and its detail request fails with
  status 500. When the summary has no forecast, \<open>main\<close> returns the site's record, built
  from the summary: 12 seats from its infos, and no occupancy. When the forecast of the
  same summary is \<open>null\<close>, line 152 raises \<open>AttributeError\<close> and the run is aborted.
\<close>

theorem detail_fallback_aborts_on_null_forecast:
  "main latin1 (serve_pages [[site_null_forecast]]) failing_detail = Some (Inl AttributeError)
   \<and> main latin1 (serve_pages [[site_cujas]]) failing_detail = Some (Inr [record_cujas])
   \<and> available_seats record_cujas = Some 12
   \<and> occupancy_percent record_cujas = None"
proof (intro conjI)
  show "main latin1 (serve_pages [[site_null_forecast]]) failing_detail
      = Some (Inl AttributeError)"
    by (simp add: main_def serve_one_page site_null_forecast_region enrich_null_forecast_eval)
  show "main latin1 (serve_pages [[site_cujas]]) failing_detail = Some (Inr [record_cujas])"
    by (simp add: main_def serve_one_page site_cujas_region enrich_cujas)
  show "available_seats record_cujas = Some 12" by (simp add: record_cujas_def)
  show "occupancy_percent record_cujas = None" by (simp add: record_cujas_def)
qed

text \<open>
  C3, as the code has it. The latitude and the longitude of a record are the members of
  these names of the summary's \<open>location.coordinates\<close>, each read on its own, and absent
  when the location, the coordinates or the member is missing or \<open>null\<close>. So a record has
  both or neither exactly when the summary's coordinates have both or neither.
\<close>

theorem coordinates_copied_independently:
  "enrich L get s = Inr r \<longrightarrow>
     e_latitude r = get_member (latitude (site_coords_of s))
   \<and> e_longitude r = get_member (longitude (site_coords_of s))
   \<and> ((e_latitude r = None) = (e_longitude r = None)
        \<longleftrightarrow> (get_member (latitude (site_coords_of s)) = None)
             = (get_member (longitude (site_coords_of s)) = None))
   \<and> (location s = Missing \<longrightarrow> e_latitude r = None \<and> e_longitude r = None)"
proof
  assume e: "enrich L get s = Inr r"
  obtain loc where loc: "get_or (location s) empty_location = Some loc"
    and lat0: "e_latitude r =
        (case get_or (coordinates loc) empty_coordinates of
           None \<Rightarrow> None
         | Some c \<Rightarrow> if coords_truthy c then get_member (latitude c) else None)"
    and lon0: "e_longitude r =
        (case get_or (coordinates loc) empty_coordinates of
           None \<Rightarrow> None
         | Some c \<Rightarrow> if coords_truthy c then get_member (longitude c) else None)"
    using e by (auto simp: enrich_def Let_def split: option.splits sum.splits)
  have c0: "get_or (coordinates loc) empty_coordinates
      = (case coordinates loc of Null \<Rightarrow> None | Missing \<Rightarrow> Some empty_coordinates
         | Val c \<Rightarrow> Some c)"
    by (simp add: get_or_def split: member.splits)
  have s0: "site_coords_of s
      = (case coordinates loc of Null \<Rightarrow> empty_coordinates | Missing \<Rightarrow> empty_coordinates
         | Val c \<Rightarrow> c)"
    using loc
    by (cases "location s")
       (auto simp: site_coords_of_def get_or_def get_member_def empty_location_def
         split: member.splits)
  have lat: "e_latitude r = get_member (latitude (site_coords_of s))"
    unfolding lat0 c0 s0
    by (cases "coordinates loc")
       (simp_all add: coords_truthy_def empty_coordinates_def get_member_def)
  have lon: "e_longitude r = get_member (longitude (site_coords_of s))"
    unfolding lon0 c0 s0
    by (cases "coordinates loc")
       (simp_all add: coords_truthy_def empty_coordinates_def get_member_def)
  have "location s = Missing \<longrightarrow> e_latitude r = None \<and> e_longitude r = None"
    using lat lon by (simp add: site_coords_of_def get_member_def empty_coordinates_def)
  with lat lon show "e_latitude r = get_member (latitude (site_coords_of s))
   \<and> e_longitude r = get_member (longitude (site_coords_of s))
   \<and> ((e_latitude r = None) = (e_longitude r = None)
        \<longleftrightarrow> (get_member (latitude (site_coords_of s)) = None)
             = (get_member (longitude (site_coords_of s)) = None))
   \<and> (location s = Missing \<longrightarrow> e_latitude r = None \<and> e_longitude r = None)"
    by simp
qed

theorem coordinates_copied_independently_witness:
  "enrich latin1 failing_detail site_cujas = Inr record_cujas
   \<and> e_latitude record_cujas = None \<and> e_longitude record_cujas = None"
  using coordinates_copied_independently [of latin1 failing_detail site_cujas record_cujas]
    enrich_cujas
  by (simp add: record_cujas_def)

text \<open>The invariant of C3 as the spec states it fails: the summary \<open>site_lat_only\<close> is of
  the target region and has a latitude and no longitude, and so has its record.\<close>

theorem latitude_without_longitude:
  "main latin1 (serve_pages [[site_lat_only]]) failing_detail = Some (Inr [record_lat_only])
   \<and> e_latitude record_lat_only = Some 48
   \<and> e_longitude record_lat_only = None"
proof (intro conjI)
  show "main latin1 (serve_pages [[site_lat_only]]) failing_detail
      = Some (Inr [record_lat_only])"
    by (simp add: main_def serve_one_page site_lat_only_region enrich_lat_only)
  show "e_latitude record_lat_only = Some 48" by (simp add: record_lat_only_def)
  show "e_longitude record_lat_only = None" by (simp add: record_lat_only_def)
qed

section \<open>Text normalizer\<close>

text \<open>The Latin-1 instance meets the four properties of the library that idempotence
  rests on.\<close>

lemma latin1_decomposition_keys:
  "map fst latin1_decomposition =
     [0xA0, 0xA8, 0xAA, 0xAF, 0xB2, 0xB3, 0xB4, 0xB5, 0xB8, 0xB9, 0xBA, 0xBC, 0xBD, 0xBE,
      0xC0, 0xC1, 0xC2, 0xC3, 0xC4, 0xC5, 0xC7, 0xC8, 0xC9, 0xCA, 0xCB, 0xCC, 0xCD, 0xCE,
      0xCF, 0xD1, 0xD2, 0xD3, 0xD4, 0xD5, 0xD6, 0xD9, 0xDA, 0xDB, 0xDC, 0xDD, 0xE0, 0xE1,
      0xE2, 0xE3, 0xE4, 0xE5, 0xE7, 0xE8, 0xE9, 0xEA, 0xEB, 0xEC, 0xED, 0xEE, 0xEF, 0xF1,
      0xF2, 0xF3, 0xF4, 0xF5, 0xF6, 0xF9, 0xFA, 0xFB, 0xFC, 0xFD, 0xFF, 0x202F]"
  by (simp add: latin1_decomposition_def)

lemma latin1_decomposition_values:
  "list_all (\<lambda>(k, ds). list_all (\<lambda>d. d < 0xA0 \<or> (0xFF < d \<and> d \<noteq> 0x202F)) ds)
     latin1_decomposition"
  by (simp add: latin1_decomposition_def)

lemma latin1_decomp_no_key:
  "c \<notin> set (map fst latin1_decomposition) \<Longrightarrow> latin1_decomp c = [c]"
proof -
  assume "c \<notin> set (map fst latin1_decomposition)"
  then have "map_of latin1_decomposition c = None"
    by (simp add: map_of_eq_None_iff)
  then show ?thesis by (simp add: latin1_decomp_def)
qed

lemma latin1_decomp_outside:
  "c < 0xA0 \<or> (0xFF < c \<and> c \<noteq> 0x202F) \<Longrightarrow> latin1_decomp c = [c]"
  by (rule latin1_decomp_no_key) (auto simp: latin1_decomposition_keys)

lemma latin1_decomp_decomposed: "d \<in> set (latin1_decomp c) \<Longrightarrow> latin1_decomp d = [d]"
proof (cases "map_of latin1_decomposition c")
  case None
  assume "d \<in> set (latin1_decomp c)"
  with None show ?thesis by (simp add: latin1_decomp_def)
next
  case (Some ds)
  assume "d \<in> set (latin1_decomp c)"
  with Some have "d \<in> set ds" by (simp add: latin1_decomp_def)
  moreover have "(c, ds) \<in> set latin1_decomposition" using Some by (rule map_of_SomeD)
  ultimately have "d < 0xA0 \<or> (0xFF < d \<and> d \<noteq> 0x202F)"
    using latin1_decomposition_values unfolding list_all_iff by fast
  then show ?thesis by (rule latin1_decomp_outside)
qed

lemma latin1_decomp_key: "c \<in> set (map fst latin1_decomposition) \<Longrightarrow> latin1_decomp c \<noteq> [c]"
proof
  assume k: "c \<in> set (map fst latin1_decomposition)" and "latin1_decomp c = [c]"
  then have "c \<in> set (latin1_decomp c)" by simp
  then have "latin1_decomp c = [c] \<and> c \<in> set (latin1_decomp c)"
    using \<open>latin1_decomp c = [c]\<close> by simp
  obtain ds where ds: "map_of latin1_decomposition c = Some ds"
    using k by (cases "map_of latin1_decomposition c") (auto simp: map_of_eq_None_iff)
  then have "ds = [c]" using \<open>latin1_decomp c = [c]\<close> by (simp add: latin1_decomp_def)
  moreover have "(c, ds) \<in> set latin1_decomposition" using ds by (rule map_of_SomeD)
  ultimately have "c < 0xA0 \<or> (0xFF < c \<and> c \<noteq> 0x202F)"
    using latin1_decomposition_values unfolding list_all_iff by fastforce
  then have "c \<notin> set (map fst latin1_decomposition)"
    by (auto simp: latin1_decomposition_keys)
  then show False using k by simp
qed

lemma latin1_nfkd_decomposed: "c \<in> set (latin1_nfkd s) \<Longrightarrow> latin1_nfkd [c] = [c]"
  using latin1_decomp_decomposed by (auto simp: latin1_nfkd_def)

lemma latin1_nfkd_stable: "\<forall>c\<in>set s. latin1_nfkd [c] = [c] \<Longrightarrow> latin1_nfkd s = s"
  by (induction s) (auto simp: latin1_nfkd_def)

lemma latin1_upper_plain:
  "0xC0 \<le> c \<Longrightarrow> c \<le> 0xDE \<Longrightarrow> c \<noteq> 0xD7 \<Longrightarrow> latin1_decomp c = [c] \<Longrightarrow>
   c = 0xC6 \<or> c = 0xD0 \<or> c = 0xD8 \<or> c = 0xDE"
proof -
  assume r: "0xC0 \<le> c" "c \<le> 0xDE" and nd: "c \<noteq> 0xD7" "latin1_decomp c = [c]"
  have "list_all (\<lambda>c. c \<in> set (map fst latin1_decomposition)
                      \<or> c \<in> set [0xC6, 0xD0, 0xD7, 0xD8, 0xDE]) [0xC0..<0xDF]"
    by (simp add: latin1_decomposition_keys)
  moreover have "c \<in> set [0xC0..<0xDF]" using r by (simp del: upt_rec_numeral)
  ultimately have "c \<in> set (map fst latin1_decomposition)
      \<or> c \<in> set [0xC6, 0xD0, 0xD7, 0xD8, 0xDE]"
    unfolding list_all_iff by blast
  then show ?thesis using nd latin1_decomp_key by auto
qed

lemma latin1_lower_keeps_plain:
  assumes "\<forall>c\<in>set s. latin1_nfkd [c] = [c] \<and> latin1_combining c = 0"
  shows "\<forall>c\<in>set (latin1_lower s). latin1_nfkd [c] = [c] \<and> latin1_combining c = 0"
proof
  fix d assume "d \<in> set (latin1_lower s)"
  then obtain c where c: "c \<in> set s"
    and d: "d = (if (0x41 \<le> c \<and> c \<le> 0x5A) \<or> (0xC0 \<le> c \<and> c \<le> 0xDE \<and> c \<noteq> 0xD7)
                 then c + 0x20 else c)"
    by (auto simp: latin1_lower_def)
  have pc: "latin1_decomp c = [c]" "latin1_combining c = 0"
    using assms c by (auto simp: latin1_nfkd_def)
  consider (ascii) "0x41 \<le> c \<and> c \<le> 0x5A"
    | (latin) "0xC0 \<le> c \<and> c \<le> 0xDE \<and> c \<noteq> 0xD7"
    | (other) "\<not> ((0x41 \<le> c \<and> c \<le> 0x5A) \<or> (0xC0 \<le> c \<and> c \<le> 0xDE \<and> c \<noteq> 0xD7))"
    by blast
  then show "latin1_nfkd [d] = [d] \<and> latin1_combining d = 0"
  proof cases
    case ascii
    then have "d = c + 0x20" "d < 0xA0" using d by auto
    then show ?thesis
      using latin1_decomp_outside [of d] by (simp add: latin1_nfkd_def latin1_combining_def)
  next
    case latin
    then have "c = 0xC6 \<or> c = 0xD0 \<or> c = 0xD8 \<or> c = 0xDE"
      using pc(1) latin1_upper_plain by blast
    moreover have "d = c + 0x20" using d latin by simp
    ultimately have "d = 0xE6 \<or> d = 0xF0 \<or> d = 0xF8 \<or> d = 0xFE" by auto
    then have "d \<notin> set (map fst latin1_decomposition) \<and> latin1_combining d = 0"
      by (auto simp: latin1_decomposition_keys latin1_combining_def)
    then show ?thesis using latin1_decomp_no_key by (simp add: latin1_nfkd_def)
  next
    case other
    then have "d = c" using d by simp
    then show ?thesis using pc by (simp add: latin1_nfkd_def)
  qed
qed

lemma latin1_lower_idem: "latin1_lower (latin1_lower s) = latin1_lower s"
  by (induction s) (auto simp: latin1_lower_def)

text \<open>
  C9. \<open>norm_text\<close> is idempotent, and answers the empty text for an empty or absent
  input. Idempotence is a property of the three library functions together; it is proved
  from four properties of theirs: every code point that NFKD puts out is one that NFKD
  leaves alone; a text made of such code points that are not combining marks is left alone
  by NFKD; lower-casing such a text gives such a text; and lower-casing twice is
  lower-casing once.
\<close>

theorem norm_text_idempotent:
  assumes decomposed: "\<forall>s. \<forall>c\<in>set (normalize_NFKD L s). normalize_NFKD L [c] = [c]"
    and stable: "\<forall>s. (\<forall>c\<in>set s. normalize_NFKD L [c] = [c] \<and> combining L c = 0)
                   \<longrightarrow> normalize_NFKD L s = s"
    and lower_closed: "\<forall>s. (\<forall>c\<in>set s. normalize_NFKD L [c] = [c] \<and> combining L c = 0)
                   \<longrightarrow> (\<forall>c\<in>set (lower L s). normalize_NFKD L [c] = [c] \<and> combining L c = 0)"
    and lower_idem: "\<forall>s. lower L (lower L s) = lower L s"
  shows "norm_text L (Some (norm_text L x)) = norm_text L x
         \<and> norm_text L None = [] \<and> norm_text L (Some []) = []"
proof (intro conjI)
  show "norm_text L None = []" by (simp add: norm_text_def)
  show "norm_text L (Some []) = []" by (simp add: norm_text_def)
  show "norm_text L (Some (norm_text L x)) = norm_text L x"
  proof (cases "x = None \<or> x = Some []")
    case True
    then show ?thesis by (auto simp: norm_text_def)
  next
    case False
    then obtain t where t: "x = Some t" "t \<noteq> []" by (cases x) auto
    define u where "u = filter (\<lambda>ch. combining L ch = 0) (normalize_NFKD L t)"
    define y where "y = lower L u"
    have y: "norm_text L x = y" using t by (simp add: norm_text_def u_def y_def)
    have "\<forall>c\<in>set u. normalize_NFKD L [c] = [c] \<and> combining L c = 0"
      using decomposed by (auto simp: u_def)
    then have plain: "\<forall>c\<in>set y. normalize_NFKD L [c] = [c] \<and> combining L c = 0"
      using lower_closed unfolding y_def by blast
    then have "normalize_NFKD L y = y" using stable by blast
    moreover have "filter (\<lambda>ch. combining L ch = 0) y = y"
      using plain by (simp add: filter_id_conv)
    moreover have "lower L y = y" using lower_idem by (simp add: y_def)
    ultimately have "norm_text L (Some y) = y" by (simp add: norm_text_def)
    then show ?thesis using y by simp
  qed
qed

theorem norm_text_idempotent_witness:
  "norm_text latin1 (Some (norm_text latin1 (Some (0xCE # lit ''le-de-France''))))
     = norm_text latin1 (Some (0xCE # lit ''le-de-France''))
   \<and> norm_text latin1 (Some (0xCE # lit ''le-de-France'')) = lit ''ile-de-france''"
proof -
  have sel: "normalize_NFKD latin1 = latin1_nfkd" "combining latin1 = latin1_combining"
    "lower latin1 = latin1_lower"
    by (simp_all add: latin1_def)
  have 1: "\<forall>s. \<forall>c\<in>set (normalize_NFKD latin1 s). normalize_NFKD latin1 [c] = [c]"
    unfolding sel using latin1_nfkd_decomposed by blast
  have 2: "\<forall>s. (\<forall>c\<in>set s. normalize_NFKD latin1 [c] = [c] \<and> combining latin1 c = 0)
                   \<longrightarrow> normalize_NFKD latin1 s = s"
    unfolding sel using latin1_nfkd_stable by blast
  have 3: "\<forall>s. (\<forall>c\<in>set s. normalize_NFKD latin1 [c] = [c] \<and> combining latin1 c = 0)
                   \<longrightarrow> (\<forall>c\<in>set (lower latin1 s).
                          normalize_NFKD latin1 [c] = [c] \<and> combining latin1 c = 0)"
    unfolding sel using latin1_lower_keeps_plain by blast
  have 4: "\<forall>s. lower latin1 (lower latin1 s) = lower latin1 s"
    unfolding sel using latin1_lower_idem by blast
  have "norm_text latin1 (Some (0xCE # lit ''le-de-France'')) = lit ''ile-de-france''"
    by (simp add: latin1_eval)
  then show ?thesis
    using norm_text_idempotent [OF 1 2 3 4, of "Some (0xCE # lit ''le-de-France'')"] by simp
qed

end
